theory Spec2Isabelle
  imports Main
begin

section \<open>Python values\<close>

text \<open>
  A Python \<open>str\<close> is a sequence of Unicode code points: slicing, \<open>startswith\<close> and
  formatting all count code points. A string is therefore modelled as the list of its
  code points. ASCII literals of the source are written \<open>str ''...''\<close>; the Cyrillic
  parts of the messages are given by their code points.
\<close>

type_synonym pystr = "nat list"

definition str :: "string \<Rightarrow> pystr" where
  "str s = map of_char s"

text \<open>
  The documents read by \<open>json.load\<close> and the record built from them are Python values:
  \<open>None\<close>, \<open>bool\<close>, \<open>int\<close>, \<open>str\<close>, \<open>list\<close> and \<open>dict\<close> with string keys, the latter
  kept as an association list in insertion order and read with \<open>map_of\<close>.
  Floating-point numbers are left out of the model.
\<close>

datatype json =
    JNull
  | JBool bool
  | JInt int
  | JStr pystr
  | JArr "json list"
  | JObj "(pystr \<times> json) list"

type_synonym dict = "(pystr \<times> json) list"

datatype py_error = KeyError pystr | TypeError | AttributeError

text \<open>Truth value of a Python object, as tested by \<open>if\<close>, \<open>and\<close>, \<open>or\<close>.\<close>

fun truthy :: "json \<Rightarrow> bool" where
  "truthy JNull = False"
| "truthy (JBool b) = b"
| "truthy (JInt i) = (i \<noteq> 0)"
| "truthy (JStr s) = (s \<noteq> [])"
| "truthy (JArr xs) = (xs \<noteq> [])"
| "truthy (JObj kvs) = (kvs \<noteq> [])"

text \<open>An optional command-line or keyword argument: \<open>None\<close> or a \<open>str\<close>.\<close>

fun given :: "pystr option \<Rightarrow> bool" where
  "given None = False"
| "given (Some s) = (s \<noteq> [])"

fun json_of_str :: "pystr option \<Rightarrow> json" where
  "json_of_str None = JNull"
| "json_of_str (Some s) = JStr s"

fun json_of_int :: "int option \<Rightarrow> json" where
  "json_of_int None = JNull"
| "json_of_int (Some i) = JInt i"

text \<open>\<open>d.get(k, default)\<close> and \<open>d.get(k)\<close>.\<close>

definition get_default :: "dict \<Rightarrow> pystr \<Rightarrow> json \<Rightarrow> json" where
  "get_default d k dflt = (case map_of d k of None \<Rightarrow> dflt | Some v \<Rightarrow> v)"

subsection \<open>Decimal formatting of integers\<close>

fun digits :: "nat \<Rightarrow> pystr" where
  "digits n = (if n < 10 then [48 + n] else digits (n div 10) @ [48 + n mod 10])"

declare digits.simps [simp del]

text \<open>\<open>str(i)\<close> for an \<open>int\<close>.\<close>

definition str_int :: "int \<Rightarrow> pystr" where
  "str_int i = (if i < 0 then 45 # digits (nat (- i)) else digits (nat i))"

text \<open>
  The format specification \<open>03d\<close>: the sign first, then the decimal digits padded with
  zeros on the left to a total width of at least 3.
\<close>

definition zfill :: "nat \<Rightarrow> pystr \<Rightarrow> pystr" where
  "zfill w ds = replicate (w - length ds) 48 @ ds"

definition format_03d :: "int \<Rightarrow> pystr" where
  "format_03d i = (if i < 0 then 45 # zfill 2 (digits (nat (- i))) else zfill 3 (digits (nat i)))"

section \<open>The validator\<close>

text \<open>The literal parts of the two messages of \<open>validate_config\<close>.\<close>

definition required_msg_head :: pystr where
  "required_msg_head =
     [1054, 1073, 1103, 1079, 1072, 1090, 1077, 1083, 1100, 1085, 1086, 1077, 32,
      1087, 1086, 1083, 1077, 32, 39]"

definition required_msg_tail :: pystr where
  "required_msg_tail =
     [39, 32, 1086, 1090, 1089, 1091, 1090, 1089, 1090, 1074, 1091, 1077, 1090, 32,
      1080, 1083, 1080, 32, 110, 117, 108, 108]"

definition key_msg_head :: pystr where
  "key_msg_head =
     str ''enrollment_api_key '' @
     [1076, 1086, 1083, 1078, 1077, 1085, 32,
      1085, 1072, 1095, 1080, 1085, 1072, 1090, 1100, 1089, 1103, 32, 1089, 32] @
     str [CHR 0x27] @ str ''sphr_'' @ str [CHR 0x27] @ str '', '' @
     [1087, 1086, 1083, 1091, 1095, 1077, 1085, 1086] @ str '': ''"

text \<open>
  \<open>for field in required\<close>: the elements a Python value yields when iterated, or the
  \<open>TypeError\<close> of a value that is not iterable.
\<close>

fun iterate :: "json \<Rightarrow> py_error + json list" where
  "iterate (JArr xs) = Inr xs"
| "iterate (JStr s) = Inr (map (\<lambda>c. JStr [c]) s)"
| "iterate (JObj kvs) = Inr (map (\<lambda>kv. JStr (fst kv)) kvs)"
| "iterate JNull = Inl TypeError"
| "iterate (JBool b) = Inl TypeError"
| "iterate (JInt i) = Inl TypeError"

text \<open>
  \<open>field not in config or config[field] is None\<close>. The keys of \<open>config\<close> are strings,
  so another hashable value is never a key; a list or a dict is unhashable.
\<close>

fun missing :: "dict \<Rightarrow> json \<Rightarrow> py_error + bool" where
  "missing config (JStr f) = Inr (map_of config f = None \<or> map_of config f = Some JNull)"
| "missing config JNull = Inr True"
| "missing config (JBool b) = Inr True"
| "missing config (JInt i) = Inr True"
| "missing config (JArr xs) = Inl TypeError"
| "missing config (JObj kvs) = Inl TypeError"

text \<open>
  \<open>f"{field}"\<close> for the values that reach the message. Lists and dicts never do:
  \<open>missing\<close> has raised before.
\<close>

fun shown :: "json \<Rightarrow> pystr" where
  "shown (JStr f) = f"
| "shown JNull = str ''None''"
| "shown (JBool b) = (if b then str ''True'' else str ''False'')"
| "shown (JInt i) = str_int i"
| "shown (JArr xs) = []"
| "shown (JObj kvs) = []"

definition required_msg :: "json \<Rightarrow> pystr" where
  "required_msg field = required_msg_head @ shown field @ required_msg_tail"

fun check_required :: "dict \<Rightarrow> json list \<Rightarrow> pystr list \<Rightarrow> py_error + pystr list" where
  "check_required config [] errors = Inr errors"
| "check_required config (field # rest) errors =
     (case missing config field of
        Inl e \<Rightarrow> Inl e
      | Inr m \<Rightarrow> check_required config rest (if m then errors @ [required_msg field] else errors))"

definition key_msg :: "pystr \<Rightarrow> pystr" where
  "key_msg key = key_msg_head @ take 10 key @ str ''...''"

text \<open>
  \<open>key and not key.startswith("sphr_")\<close>: a false value skips the test, a true value
  that is not a \<open>str\<close> has no \<open>startswith\<close>.
\<close>

fun check_key :: "json \<Rightarrow> py_error + pystr list" where
  "check_key (JStr key) =
     Inr (if key \<noteq> [] \<and> take 5 key \<noteq> str ''sphr_'' then [key_msg key] else [])"
| "check_key v = (if truthy v then Inl AttributeError else Inr [])"

definition validate_config :: "dict \<Rightarrow> dict \<Rightarrow> py_error + pystr list" where
  "validate_config config schema =
     (case iterate (get_default schema (str ''required'') (JArr [])) of
        Inl e \<Rightarrow> Inl e
      | Inr required \<Rightarrow>
          (case check_required config required [] of
             Inl e \<Rightarrow> Inl e
           | Inr errors \<Rightarrow>
               (case check_key (get_default config (str ''enrollment_api_key'') (JStr [])) of
                  Inl e \<Rightarrow> Inl e
                | Inr key_errors \<Rightarrow> Inr (errors @ key_errors))))"

section \<open>The synthesizer\<close>

definition default_features :: json where
  "default_features = JObj
     [(str ''telemetry_enabled'', JBool True),
      (str ''streaming_enabled'', JBool True),
      (str ''ota_enabled'', JBool True),
      (str ''auto_register'', JBool True)]"

definition meta_of :: "pystr option \<Rightarrow> int option \<Rightarrow> pystr option \<Rightarrow> dict" where
  "meta_of workstation_id instance_index ldplayer_name =
     (case ldplayer_name of
        Some n \<Rightarrow> if n \<noteq> [] then [(str ''ldplayer_name'', JStr n)] else []
      | None \<Rightarrow> []) @
     (if given workstation_id \<and> instance_index \<noteq> None
      then [(str ''clone_source'', JStr (str ''auto-generated''))] else [])"

definition location_of :: "dict \<Rightarrow> pystr option \<Rightarrow> json" where
  "location_of env_config location =
     (case location of
        Some l \<Rightarrow> if l \<noteq> [] then JStr l else get_default env_config (str ''location'') JNull
      | None \<Rightarrow> get_default env_config (str ''location'') JNull)"

definition generate_single_config ::
  "dict \<Rightarrow> pystr option \<Rightarrow> int option \<Rightarrow> pystr option \<Rightarrow> pystr option \<Rightarrow> py_error + dict" where
  "generate_single_config env_config workstation_id instance_index location ldplayer_name =
     (case map_of env_config (str ''config_version'') of
        None \<Rightarrow> Inl (KeyError (str ''config_version''))
      | Some config_version \<Rightarrow>
     (case map_of env_config (str ''server_url'') of
        None \<Rightarrow> Inl (KeyError (str ''server_url''))
      | Some server_url \<Rightarrow>
     (case map_of env_config (str ''enrollment_api_key'') of
        None \<Rightarrow> Inl (KeyError (str ''enrollment_api_key''))
      | Some enrollment_api_key \<Rightarrow>
          Inr [(str ''config_version'', config_version),
               (str ''server_url'', server_url),
               (str ''ws_path'', get_default env_config (str ''ws_path'') (JStr (str ''/ws/android''))),
               (str ''enrollment_api_key'', enrollment_api_key),
               (str ''device_id'', JNull),
               (str ''workstation_id'', json_of_str workstation_id),
               (str ''instance_index'', json_of_int instance_index),
               (str ''location'', location_of env_config location),
               (str ''environment'', get_default env_config (str ''environment'') (JStr (str ''production''))),
               (str ''config_poll_interval_seconds'',
                  get_default env_config (str ''config_poll_interval_seconds'') (JInt 86400)),
               (str ''features'', get_default env_config (str ''features'') default_features),
               (str ''meta'', JObj (meta_of workstation_id instance_index ldplayer_name))])))"

section \<open>The batch driver\<close>

text \<open>
  The parsed command line. \<open>--env\<close> and \<open>--output-dir\<close> only select where documents are
  read and written; the environment document and the schema document are parameters of
  \<open>main\<close>, already loaded, and a missing schema file is the empty dict.
\<close>

record args =
  workstation_id :: "pystr option"
  instance_index :: "int option"
  location :: "pystr option"
  ldplayer_name :: "pystr option"
  count :: int
  start_index :: int
  output_file :: "pystr option"

text \<open>How a run ends: normally, by \<open>sys.exit\<close> after a failed validation, or by an
  uncaught exception.\<close>

datatype outcome =
    Completed nat
  | Exited nat nat "pystr list"
  | Raised py_error

text \<open>\<open>idx = args.start_index + i if args.workstation_id else args.instance_index\<close>\<close>

definition unit_index :: "args \<Rightarrow> nat \<Rightarrow> int option" where
  "unit_index a i =
     (if given (workstation_id a) then Some (start_index a + int i) else instance_index a)"

text \<open>
  The display name of a unit. \<open>f"Farm-{idx:03d}"\<close> is evaluated only when \<open>count > 1\<close>
  and the given name is false, and raises \<open>TypeError\<close> on \<open>None\<close>.
\<close>

definition unit_name :: "args \<Rightarrow> int option \<Rightarrow> py_error + pystr option" where
  "unit_name a idx =
     (if count a > 1 then
        (if given (ldplayer_name a) then Inr (ldplayer_name a)
         else (case idx of
                 None \<Rightarrow> Inl TypeError
               | Some k \<Rightarrow> Inr (Some (str ''Farm-'' @ format_03d k))))
      else Inr (ldplayer_name a))"

definition default_file_name :: pystr where
  "default_file_name = str ''sphere-agent-config.json''"

definition file_name :: "args \<Rightarrow> int option \<Rightarrow> py_error + pystr" where
  "file_name a idx =
     (if count a = 1 then
        Inr (case output_file a of
               Some f \<Rightarrow> if f \<noteq> [] then f else default_file_name
             | None \<Rightarrow> default_file_name)
      else (case idx of
              None \<Rightarrow> Inl TypeError
            | Some k \<Rightarrow> Inr (str ''sphere-agent-config-'' @ format_03d k @ str ''.json'')))"

text \<open>
  The body of the loop of \<open>main\<close> for the unit at offset \<open>i\<close>, in two parts: the record
  synthesized for the unit, and what the body then does with it.
\<close>

definition unit_config :: "args \<Rightarrow> dict \<Rightarrow> nat \<Rightarrow> py_error + dict" where
  "unit_config a env_config i =
     (let idx = unit_index a i in
      case unit_name a idx of
        Inl e \<Rightarrow> Inl e
      | Inr name \<Rightarrow> generate_single_config env_config (workstation_id a) idx (location a) name)"

datatype step =
    Wrote pystr dict
  | Invalid "pystr list"
  | Failed py_error

definition unit_step :: "args \<Rightarrow> dict \<Rightarrow> dict \<Rightarrow> nat \<Rightarrow> step" where
  "unit_step a env_config schema i =
     (case unit_config a env_config i of
        Inl e \<Rightarrow> Failed e
      | Inr config \<Rightarrow>
     (case validate_config config schema of
        Inl e \<Rightarrow> Failed e
      | Inr errors \<Rightarrow>
          if errors \<noteq> [] then Invalid errors
          else (case file_name a (unit_index a i) of
                  Inl e \<Rightarrow> Failed e
                | Inr filename \<Rightarrow> Wrote filename config)))"

text \<open>
  The loop of \<open>main\<close> over the offsets of \<open>range(args.count)\<close>. The output directory is
  the list of the writes made so far, oldest first, each a file name and the record
  dumped to it; a write to a name already written replaces that file. A failed
  validation ends the run by \<open>sys.exit(1)\<close>.
\<close>

fun main_loop ::
  "args \<Rightarrow> dict \<Rightarrow> dict \<Rightarrow> nat list \<Rightarrow> (pystr \<times> dict) list \<Rightarrow> nat
     \<Rightarrow> (pystr \<times> dict) list \<times> outcome" where
  "main_loop a env_config schema [] written generated = (written, Completed generated)"
| "main_loop a env_config schema (i # rest) written generated =
     (case unit_step a env_config schema i of
        Failed e \<Rightarrow> (written, Raised e)
      | Invalid errors \<Rightarrow> (written, Exited 1 i errors)
      | Wrote filename config \<Rightarrow>
          main_loop a env_config schema rest (written @ [(filename, config)]) (generated + 1))"

definition main :: "args \<Rightarrow> dict \<Rightarrow> dict \<Rightarrow> (pystr \<times> dict) list \<times> outcome" where
  "main a env_config schema = main_loop a env_config schema [0..<nat (count a)] [] 0"

section \<open>Auxiliary notions for the statements\<close>

text \<open>A field of the record a call produced; \<open>None\<close> when the call raised.\<close>

definition field_of :: "py_error + dict \<Rightarrow> pystr \<Rightarrow> json option" where
  "field_of r k = (case r of Inl e \<Rightarrow> None | Inr config \<Rightarrow> map_of config k)"

text \<open>
  \<open>errors = validate_config(config, schema)\<close> for the unit at offset \<open>i\<close>: the value of
  \<open>errors\<close>, or the exception raised before it is bound.
\<close>

definition unit_errors :: "args \<Rightarrow> dict \<Rightarrow> dict \<Rightarrow> nat \<Rightarrow> py_error + pystr list" where
  "unit_errors a env_config schema i =
     (case unit_config a env_config i of
        Inl e \<Rightarrow> Inl e
      | Inr config \<Rightarrow> validate_config config schema)"

text \<open>Reading a formatted integer back: the value of a digit string, and the sign.\<close>

definition undigits :: "pystr \<Rightarrow> nat" where
  "undigits ds = foldl (\<lambda>v d. 10 * v + (d - 48)) 0 ds"

definition unformat :: "pystr \<Rightarrow> int" where
  "unformat s =
     (case s of
        [] \<Rightarrow> 0
      | c # cs \<Rightarrow> if c = 45 then - int (undigits cs) else int (undigits s))"

text \<open>An environment document with every optional field omitted but the location.\<close>

definition example_env :: "pystr \<Rightarrow> dict" where
  "example_env key =
     [(str ''config_version'', JInt 1),
      (str ''server_url'', JStr (str ''https://sphere.example'')),
      (str ''enrollment_api_key'', JStr key),
      (str ''location'', JStr (str ''msk-office-1''))]"

text \<open>A command line of a batch run: no location and no output file name.\<close>

definition example_args :: "pystr option \<Rightarrow> int option \<Rightarrow> pystr option \<Rightarrow> int \<Rightarrow> int \<Rightarrow> args" where
  "example_args w idx name n start =
     \<lparr>workstation_id = w, instance_index = idx, location = None, ldplayer_name = name,
      count = n, start_index = start, output_file = None\<rparr>"

section \<open>Strings and formatted integers\<close>


lemma str_eq_iff [simp]: "str a = str b \<longleftrightarrow> a = b"
  unfolding str_def by (rule inj_map_eq_map) (rule inj_of_char)

lemma str_Nil [simp]: "str [] = []"
  by (simp add: str_def)

lemma str_eq_Nil [simp]: "str a = [] \<longleftrightarrow> a = []"
  by (simp add: str_def)

lemma digits_not_Nil: "digits n \<noteq> []"
  by (subst digits.simps) simp

lemma digits_ge: "d \<in> set (digits n) \<Longrightarrow> 48 \<le> d"
  by (induction n arbitrary: d rule: digits.induct) (subst (asm) digits.simps, auto split: if_splits)

lemma undigits_snoc: "undigits (ds @ [d]) = 10 * undigits ds + (d - 48)"
  by (simp add: undigits_def)

lemma undigits_digits: "undigits (digits n) = n"
proof (induction n rule: digits.induct)
  case (1 n)
  show ?case
  proof (cases "n < 10")
    case True
    then show ?thesis by (subst digits.simps) (simp add: undigits_def)
  next
    case False
    with 1 have "undigits (digits (n div 10)) = n div 10" by simp
    with False show ?thesis by (subst digits.simps) (simp add: undigits_snoc)
  qed
qed

lemma undigits_zeros: "foldl (\<lambda>v d. 10 * v + (d - 48)) 0 (replicate m 48) = (0::nat)"
  by (induction m) simp_all

lemma undigits_zfill: "undigits (zfill w ds) = undigits ds"
  by (simp add: undigits_def zfill_def undigits_zeros)

lemma zfill_not_Nil: "ds \<noteq> [] \<Longrightarrow> zfill w ds \<noteq> []"
  by (simp add: zfill_def)

lemma zfill_ge: "(\<And>d. d \<in> set ds \<Longrightarrow> 48 \<le> d) \<Longrightarrow> d \<in> set (zfill w ds) \<Longrightarrow> 48 \<le> d"
  by (auto simp: zfill_def)

lemma unformat_format_03d: "unformat (format_03d k) = k"
proof (cases "k < 0")
  case True
  then show ?thesis
    by (simp add: format_03d_def unformat_def undigits_zfill undigits_digits)
next
  case False
  let ?s = "zfill 3 (digits (nat k))"
  have ne: "?s \<noteq> []" by (simp add: zfill_not_Nil digits_not_Nil)
  then obtain c cs where s: "?s = c # cs" by (cases ?s) auto
  have "c \<in> set ?s" by (simp add: s)
  then have "48 \<le> c" by (rule zfill_ge[rotated]) (rule digits_ge)
  then have "c \<noteq> 45" by simp
  moreover have "undigits ?s = nat k" by (simp add: undigits_zfill undigits_digits)
  ultimately show ?thesis using False
    by (simp add: format_03d_def unformat_def s[symmetric] split: list.splits) (simp add: s)
qed

lemma format_03d_inj: "format_03d j = format_03d k \<longleftrightarrow> j = k"
  by (metis unformat_format_03d)

lemma format_03d_three:
  assumes "0 \<le> k" "k < 1000"
  shows "format_03d k = [48 + nat k div 100, 48 + nat k div 10 mod 10, 48 + nat k mod 10]"
proof -
  define n where "n = nat k"
  have n: "n < 1000" and k: "\<not> k < 0" using assms by (simp_all add: n_def)
  consider "n < 10" | "10 \<le> n" "n < 100" | "100 \<le> n" by linarith
  then have "zfill 3 (digits n) = [48 + n div 100, 48 + n div 10 mod 10, 48 + n mod 10]"
  proof cases
    case 1
    then show ?thesis by (subst digits.simps) (simp add: zfill_def numeral_3_eq_3)
  next
    case 2
    then have "n div 10 < 10" by simp
    with 2 show ?thesis
      by (subst digits.simps, subst digits.simps) (simp add: zfill_def)
  next
    case 3
    then have a: "\<not> n div 10 < 10" by simp
    from n have b: "n div 10 div 10 < 10" by simp
    have c: "n div 10 div 10 = n div 100" by (simp add: div_mult2_eq[symmetric])
    from 3 a b show ?thesis
      by (subst digits.simps, subst digits.simps, subst digits.simps) (simp add: zfill_def c)
  qed
  then show ?thesis using k by (simp add: format_03d_def n_def)
qed


section \<open>Properties of the validator\<close>

lemma check_required_strs:
  "check_required config (map JStr required) errors =
     Inr (errors @ map (\<lambda>f. required_msg (JStr f))
            (filter (\<lambda>f. map_of config f = None \<or> map_of config f = Some JNull) required))"
  by (induction required arbitrary: errors) simp_all

lemma required_of_typed:
  assumes "map_of schema (str ''required'') = None \<and> required = [] \<or>
           map_of schema (str ''required'') = Some (JArr (map JStr required))"
  shows "iterate (get_default schema (str ''required'') (JArr [])) = Inr (map JStr required)"
  using assms by (auto simp: get_default_def)

lemma validate_config_typed:
  assumes "map_of schema (str ''required'') = None \<and> required = [] \<or>
           map_of schema (str ''required'') = Some (JArr (map JStr required))"
  shows "validate_config config schema =
     (case check_key (get_default config (str ''enrollment_api_key'') (JStr [])) of
        Inl e \<Rightarrow> Inl e
      | Inr key_errors \<Rightarrow>
          Inr (map (\<lambda>f. required_msg (JStr f))
                 (filter (\<lambda>f. map_of config f = None \<or> map_of config f = Some JNull) required)
               @ key_errors))"
  by (simp add: validate_config_def required_of_typed[OF assms] check_required_strs)

lemma required_msg_not_key_msg: "required_msg f \<noteq> key_msg k"
proof
  assume "required_msg f = key_msg k"
  then have "hd (required_msg f) = hd (key_msg k)" by simp
  then show False
    by (simp add: required_msg_def key_msg_def required_msg_head_def key_msg_head_def str_def)
qed

lemma key_msg_names_field: "take 18 key_msg_head = str ''enrollment_api_key''"
  by (simp add: key_msg_head_def str_def)

text \<open>
  Claim C2. Let the schema's \<open>required\<close> entry be absent or a list of field names, and
  the record's enrollment credential be absent, null or a string. Then the validator
  returns, in this order: one message naming the field for each required field that the
  record lacks or holds as null, in the order of the schema's list; then the credential
  message, if the credential is a non-empty string not starting with \<open>sphr_\<close>, and nothing
  otherwise. The result is the empty list exactly when every required field is present
  and not null and the credential message is not due.
\<close>

theorem validate_config_errors:
  assumes "map_of schema (str ''required'') = None \<and> required = [] \<or>
           map_of schema (str ''required'') = Some (JArr (map JStr required))"
      and "map_of config (str ''enrollment_api_key'') = None \<or>
           map_of config (str ''enrollment_api_key'') = Some JNull \<or>
           map_of config (str ''enrollment_api_key'') = Some (JStr key)"
  shows "validate_config config schema =
           Inr (map (\<lambda>f. required_msg_head @ f @ required_msg_tail)
                  (filter (\<lambda>f. map_of config f = None \<or> map_of config f = Some JNull) required)
                @ (if map_of config (str ''enrollment_api_key'') = Some (JStr key)
                      \<and> key \<noteq> [] \<and> take 5 key \<noteq> str ''sphr_''
                   then [key_msg key] else []))
         \<and> (validate_config config schema = Inr [] \<longleftrightarrow>
              (\<forall>f \<in> set required. \<exists>v. map_of config f = Some v \<and> v \<noteq> JNull)
              \<and> \<not> (map_of config (str ''enrollment_api_key'') = Some (JStr key)
                    \<and> key \<noteq> [] \<and> take 5 key \<noteq> str ''sphr_''))"
proof -
  let ?K = "str ''enrollment_api_key''"
  let ?bad = "map_of config ?K = Some (JStr key) \<and> key \<noteq> [] \<and> take 5 key \<noteq> str ''sphr_''"
  let ?miss = "\<lambda>f. map_of config f = None \<or> map_of config f = Some JNull"
  have ck: "check_key (get_default config ?K (JStr [])) = Inr (if ?bad then [key_msg key] else [])"
    using assms(2) by (auto simp: get_default_def)
  have eq: "validate_config config schema =
      Inr (map (\<lambda>f. required_msg_head @ f @ required_msg_tail) (filter ?miss required)
           @ (if ?bad then [key_msg key] else []))"
    by (simp add: validate_config_typed[OF assms(1)] ck required_msg_def)
  have "filter ?miss required = [] \<longleftrightarrow> (\<forall>f \<in> set required. \<exists>v. map_of config f = Some v \<and> v \<noteq> JNull)"
    by (auto simp: filter_empty_conv)
  with eq show ?thesis by auto
qed

theorem validate_config_errors_witness:
  "validate_config
     [(str ''server_url'', JStr (str ''https://sphere.example'')),
      (str ''device_id'', JNull),
      (str ''enrollment_api_key'', JStr (str ''secret-key-0001''))]
     [(str ''required'', JArr [JStr (str ''config_version''), JStr (str ''server_url''),
                                JStr (str ''device_id'')])]
   = Inr [required_msg_head @ str ''config_version'' @ required_msg_tail,
          required_msg_head @ str ''device_id'' @ required_msg_tail,
          key_msg_head @ str ''secret-key'' @ str ''...'']"
  using validate_config_errors
    [of "[(str ''required'', JArr [JStr (str ''config_version''), JStr (str ''server_url''),
                                JStr (str ''device_id'')])]"
        "[str ''config_version'', str ''server_url'', str ''device_id'']"
        "[(str ''server_url'', JStr (str ''https://sphere.example'')),
          (str ''device_id'', JNull),
          (str ''enrollment_api_key'', JStr (str ''secret-key-0001''))]"
        "str ''secret-key-0001''"]
  by (simp add: key_msg_def) (simp add: str_def)

text \<open>
  Claim C3. Whatever the required fields of the schema are, a record whose enrollment
  credential is a non-empty string not starting with \<open>sphr_\<close> gets exactly one credential
  message, the last of the list, made of the head naming the field
  \<open>enrollment_api_key\<close>, the first 10 characters of the credential and an ellipsis; a
  credential starting with \<open>sphr_\<close> (or empty) gets none. No other message of the list is
  a credential message.
\<close>

theorem credential_format_error:
  assumes "map_of schema (str ''required'') = None \<and> required = [] \<or>
           map_of schema (str ''required'') = Some (JArr (map JStr required))"
      and "map_of config (str ''enrollment_api_key'') = Some (JStr key)"
  shows "\<exists>errors. validate_config config schema =
             Inr (errors @ (if key \<noteq> [] \<and> take 5 key \<noteq> str ''sphr_''
                            then [key_msg_head @ take 10 key @ str ''...''] else []))
           \<and> (\<forall>e \<in> set errors. \<forall>k. e \<noteq> key_msg_head @ take 10 k @ str ''...'')
           \<and> take 18 key_msg_head = str ''enrollment_api_key''"
proof -
  let ?errors = "map (\<lambda>f. required_msg (JStr f))
                 (filter (\<lambda>f. map_of config f = None \<or> map_of config f = Some JNull) required)"
  have "validate_config config schema =
          Inr (?errors @ (if key \<noteq> [] \<and> take 5 key \<noteq> str ''sphr_''
                            then [key_msg_head @ take 10 key @ str ''...''] else []))"
    using assms(2) by (simp add: validate_config_typed[OF assms(1)] get_default_def key_msg_def)
  moreover have "\<forall>e \<in> set ?errors. \<forall>k. e \<noteq> key_msg_head @ take 10 k @ str ''...''"
    using required_msg_not_key_msg by (auto simp: key_msg_def)
  ultimately show ?thesis using key_msg_names_field by blast
qed

theorem credential_format_error_witness:
  "\<exists>errors. validate_config [(str ''enrollment_api_key'', JStr (str ''bad_key_0123456''))] [] =
             Inr (errors @ [key_msg_head @ str ''bad_key_01'' @ str ''...''])
           \<and> (\<forall>e \<in> set errors. \<forall>k. e \<noteq> key_msg_head @ take 10 k @ str ''...'')
           \<and> take 18 key_msg_head = str ''enrollment_api_key''"
  using credential_format_error
    [of "[]" "[]" "[(str ''enrollment_api_key'', JStr (str ''bad_key_0123456''))]"
        "str ''bad_key_0123456''"]
  by (simp add: str_def)

section \<open>Properties of the synthesizer\<close>

lemma generate_single_config_Inr:
  assumes "map_of env_config (str ''config_version'') = Some config_version"
      and "map_of env_config (str ''server_url'') = Some server_url"
      and "map_of env_config (str ''enrollment_api_key'') = Some enrollment_api_key"
  shows "generate_single_config env_config w i l n =
          Inr [(str ''config_version'', config_version),
               (str ''server_url'', server_url),
               (str ''ws_path'', get_default env_config (str ''ws_path'') (JStr (str ''/ws/android''))),
               (str ''enrollment_api_key'', enrollment_api_key),
               (str ''device_id'', JNull),
               (str ''workstation_id'', json_of_str w),
               (str ''instance_index'', json_of_int i),
               (str ''location'', location_of env_config l),
               (str ''environment'', get_default env_config (str ''environment'') (JStr (str ''production''))),
               (str ''config_poll_interval_seconds'',
                  get_default env_config (str ''config_poll_interval_seconds'') (JInt 86400)),
               (str ''features'', get_default env_config (str ''features'') default_features),
               (str ''meta'', JObj (meta_of w i n))]"
  using assms by (simp add: generate_single_config_def)

lemma generate_single_config_cases:
  "generate_single_config env_config w i l n = Inr config \<Longrightarrow>
     \<exists>cv su key. map_of env_config (str ''config_version'') = Some cv
       \<and> map_of env_config (str ''server_url'') = Some su
       \<and> map_of env_config (str ''enrollment_api_key'') = Some key"
  by (auto simp: generate_single_config_def split: option.splits)

text \<open>
  Claim C1, as amended. For an environment document that holds the version, the server
  URL and the enrollment credential, the synthesizer returns a record that copies these
  three values unchanged, and takes the websocket path, the environment name, the
  polling interval and the feature flags from the environment document where it has the
  field, and otherwise the defaults \<open>/ws/android\<close>, \<open>production\<close>, \<open>86400\<close> and the four
  flags, all true. The location is the location argument if it is given and not the
  empty string, otherwise the location of the environment document, otherwise null.
\<close>

theorem generate_single_config_fields:
  assumes "map_of env_config (str ''config_version'') = Some config_version"
      and "map_of env_config (str ''server_url'') = Some server_url"
      and "map_of env_config (str ''enrollment_api_key'') = Some enrollment_api_key"
  shows "field_of (generate_single_config env_config w i l n) (str ''config_version'')
           = Some config_version
       \<and> field_of (generate_single_config env_config w i l n) (str ''server_url'')
           = Some server_url
       \<and> field_of (generate_single_config env_config w i l n) (str ''enrollment_api_key'')
           = Some enrollment_api_key
       \<and> field_of (generate_single_config env_config w i l n) (str ''ws_path'')
           = Some (case map_of env_config (str ''ws_path'') of
                     None \<Rightarrow> JStr (str ''/ws/android'') | Some v \<Rightarrow> v)
       \<and> field_of (generate_single_config env_config w i l n) (str ''environment'')
           = Some (case map_of env_config (str ''environment'') of
                     None \<Rightarrow> JStr (str ''production'') | Some v \<Rightarrow> v)
       \<and> field_of (generate_single_config env_config w i l n) (str ''config_poll_interval_seconds'')
           = Some (case map_of env_config (str ''config_poll_interval_seconds'') of
                     None \<Rightarrow> JInt 86400 | Some v \<Rightarrow> v)
       \<and> field_of (generate_single_config env_config w i l n) (str ''features'')
           = Some (case map_of env_config (str ''features'') of
                     None \<Rightarrow> JObj [(str ''telemetry_enabled'', JBool True),
                                    (str ''streaming_enabled'', JBool True),
                                    (str ''ota_enabled'', JBool True),
                                    (str ''auto_register'', JBool True)]
                   | Some v \<Rightarrow> v)
       \<and> field_of (generate_single_config env_config w i l n) (str ''location'')
           = Some (case l of
                     Some s \<Rightarrow> if s \<noteq> [] then JStr s
                               else (case map_of env_config (str ''location'') of
                                       None \<Rightarrow> JNull | Some v \<Rightarrow> v)
                   | None \<Rightarrow> (case map_of env_config (str ''location'') of
                                None \<Rightarrow> JNull | Some v \<Rightarrow> v))"
  unfolding generate_single_config_Inr[OF assms]
  by (cases l) (simp_all add: field_of_def get_default_def default_features_def location_of_def)

theorem generate_single_config_fields_witness:
  "field_of (generate_single_config (example_env (str ''sphr_k1'')) None None None None)
      (str ''config_version'') = Some (JInt 1)
   \<and> field_of (generate_single_config (example_env (str ''sphr_k1'')) None None None None)
      (str ''ws_path'') = Some (JStr (str ''/ws/android''))
   \<and> field_of (generate_single_config (example_env (str ''sphr_k1'')) None None None None)
      (str ''config_poll_interval_seconds'') = Some (JInt 86400)
   \<and> field_of (generate_single_config (example_env (str ''sphr_k1'')) None None None None)
      (str ''location'') = Some (JStr (str ''msk-office-1''))"
  using generate_single_config_fields
    [of "example_env (str ''sphr_k1'')" "JInt 1" "JStr (str ''https://sphere.example'')"
        "JStr (str ''sphr_k1'')" None None None None]
  by (simp add: example_env_def)

text \<open>
  Claim C1 as stated fails for a location argument that is supplied as the empty string:
  the record then holds the location of the environment document, not the argument.
\<close>

theorem location_empty_counterexample:
  "field_of (generate_single_config (example_env (str ''sphr_k1'')) None None (Some []) None)
      (str ''location'') = Some (JStr (str ''msk-office-1''))"
  by (simp add: generate_single_config_def example_env_def field_of_def location_of_def
        get_default_def)

text \<open>
  Claim C8. Every record the synthesizer produces has the device identifier null, and
  two calls with the same five inputs return the same result.
\<close>

theorem generate_single_config_pure:
  "(generate_single_config env_config w i l n = Inr config
      \<longrightarrow> map_of config (str ''device_id'') = Some JNull)
   \<and> (env_config' = env_config \<and> w' = w \<and> i' = i \<and> l' = l \<and> n' = n
      \<longrightarrow> generate_single_config env_config' w' i' l' n'
          = generate_single_config env_config w i l n)"
proof -
  have "map_of config (str ''device_id'') = Some JNull"
    if r: "generate_single_config env_config w i l n = Inr config"
  proof -
    from generate_single_config_cases[OF r] obtain cv su key where
      "map_of env_config (str ''config_version'') = Some cv"
      "map_of env_config (str ''server_url'') = Some su"
      "map_of env_config (str ''enrollment_api_key'') = Some key" by blast
    from generate_single_config_Inr[OF this, of w i l n] r show ?thesis by auto
  qed
  then show ?thesis by simp
qed

theorem generate_single_config_pure_witness:
  "\<exists>config. generate_single_config (example_env (str ''sphr_k1'')) (Some (str ''ws-1'')) (Some 4)
              None None = Inr config
     \<and> map_of config (str ''device_id'') = Some JNull"
proof -
  obtain config where c: "generate_single_config (example_env (str ''sphr_k1''))
      (Some (str ''ws-1'')) (Some 4) None None = Inr config"
    by (simp add: generate_single_config_def example_env_def)
  with generate_single_config_pure
    [of "example_env (str ''sphr_k1'')" "Some (str ''ws-1'')" "Some 4" None None config]
  show ?thesis by blast
qed

section \<open>Properties of the batch driver\<close>

lemma unit_step_Invalid:
  "unit_step a env_config schema i = Invalid errors \<longleftrightarrow>
     unit_errors a env_config schema i = Inr errors \<and> errors \<noteq> []"
  by (auto simp: unit_step_def unit_errors_def split: sum.splits if_splits)

lemma unit_step_Wrote:
  "unit_step a env_config schema i = Wrote filename config \<Longrightarrow>
     unit_errors a env_config schema i = Inr []
     \<and> unit_config a env_config i = Inr config
     \<and> file_name a (unit_index a i) = Inr filename"
  by (auto simp: unit_step_def unit_errors_def split: sum.splits if_splits)

lemma main_loop_run:
  "main_loop a env_config schema offs w g = (w', out) \<Longrightarrow>
     \<exists>pre ws. w' = w @ ws
       \<and> map (unit_step a env_config schema) pre = map (\<lambda>(fn, c). Wrote fn c) ws
       \<and> (case out of
            Completed n \<Rightarrow> pre = offs \<and> n = g + length offs
          | Exited st i errs \<Rightarrow>
              st = 1 \<and> unit_step a env_config schema i = Invalid errs
              \<and> (\<exists>post. offs = pre @ i # post)
          | Raised e \<Rightarrow>
              (\<exists>i post. offs = pre @ i # post \<and> unit_step a env_config schema i = Failed e))"
proof (induction offs arbitrary: w g)
  case Nil
  then show ?case by auto
next
  case (Cons i rest)
  show ?case
  proof (cases "unit_step a env_config schema i")
    case (Wrote fn c)
    with Cons.prems have "main_loop a env_config schema rest (w @ [(fn, c)]) (g + 1) = (w', out)"
      by simp
    from Cons.IH[OF this] obtain pre ws where
      w': "w' = (w @ [(fn, c)]) @ ws"
      and m: "map (unit_step a env_config schema) pre = map (\<lambda>(fn, c). Wrote fn c) ws"
      and o: "(case out of
            Completed n \<Rightarrow> pre = rest \<and> n = (g + 1) + length rest
          | Exited st i errs \<Rightarrow>
              st = 1 \<and> unit_step a env_config schema i = Invalid errs
              \<and> (\<exists>post. rest = pre @ i # post)
          | Raised e \<Rightarrow>
              (\<exists>i post. rest = pre @ i # post \<and> unit_step a env_config schema i = Failed e))"
      by blast
    have 1: "w' = w @ ((fn, c) # ws)" using w' by simp
    have 2: "map (unit_step a env_config schema) (i # pre) = map (\<lambda>(fn, c). Wrote fn c) ((fn, c) # ws)"
      using m Wrote by simp
    have 3: "(case out of
            Completed n \<Rightarrow> i # pre = i # rest \<and> n = g + length (i # rest)
          | Exited st j errs \<Rightarrow>
              st = 1 \<and> unit_step a env_config schema j = Invalid errs
              \<and> (\<exists>post. i # rest = (i # pre) @ j # post)
          | Raised e \<Rightarrow>
              (\<exists>j post. i # rest = (i # pre) @ j # post \<and> unit_step a env_config schema j = Failed e))"
      using o by (cases out) auto
    from 1 2 3 show ?thesis by blast
  next
    case (Invalid errs)
    with Cons.prems have "w' = w" "out = Exited 1 i errs" by simp_all
    with Invalid show ?thesis
      by (intro exI[of _ "[]"]) simp
  next
    case (Failed e)
    with Cons.prems have "w' = w" "out = Raised e" by simp_all
    with Failed show ?thesis
      by (intro exI[of _ "[]"]) simp
  qed
qed

lemma upt_split:
  assumes "pre @ i # post = [0..<n]"
  shows "pre = [0..<i] \<and> i < n"
proof -
  from assms have "length (pre @ i # post) = length [0..<n]" by (rule arg_cong)
  then have len: "length pre + Suc (length post) = n" by simp
  then have lt: "length pre < n" by arith
  have "(pre @ i # post) ! length pre = i" by (rule nth_append_length)
  then have "[0..<n] ! length pre = i" by (simp only: assms)
  with lt have i: "i = length pre" by simp
  have "take (length pre) (pre @ i # post) = pre" by simp
  then have "take (length pre) [0..<n] = pre" by (simp only: assms)
  with lt have "pre = [0..<length pre]" by (simp add: take_upt)
  with i lt show ?thesis by simp
qed

lemma main_Exited:
  assumes "main a env_config schema = (written, Exited status i errors)"
  shows "status = 1 \<and> i < nat (count a) \<and> unit_step a env_config schema i = Invalid errors
         \<and> map (unit_step a env_config schema) [0..<i] = map (\<lambda>(fn, c). Wrote fn c) written"
proof -
  from assms have "main_loop a env_config schema [0..<nat (count a)] [] 0
                   = (written, Exited status i errors)"
    by (simp only: main_def)
  from main_loop_run[OF this] obtain pre ws where
    w: "written = [] @ ws"
    and m: "map (unit_step a env_config schema) pre = map (\<lambda>(fn, c). Wrote fn c) ws"
    and o: "status = 1 \<and> unit_step a env_config schema i = Invalid errors
            \<and> (\<exists>post. [0..<nat (count a)] = pre @ i # post)"
    unfolding outcome.case by blast
  from o obtain post where p: "[0..<nat (count a)] = pre @ i # post" by blast
  from upt_split[OF p[symmetric]] have "pre = [0..<i]" "i < nat (count a)" by simp_all
  with w m o show ?thesis by simp
qed

lemma main_written:
  "\<exists>m. m \<le> nat (count a)
     \<and> map (unit_step a env_config schema) [0..<m]
         = map (\<lambda>(fn, c). Wrote fn c) (fst (main a env_config schema))"
proof -
  obtain w' out where r: "main_loop a env_config schema [0..<nat (count a)] [] 0 = (w', out)"
    by (cases "main_loop a env_config schema [0..<nat (count a)] [] 0") auto
  from main_loop_run[OF r] obtain pre ws where
    w: "w' = ws" and m: "map (unit_step a env_config schema) pre = map (\<lambda>(fn, c). Wrote fn c) ws"
    and o: "(case out of
            Completed n \<Rightarrow> pre = [0..<nat (count a)] \<and> n = 0 + length [0..<nat (count a)]
          | Exited st i errs \<Rightarrow>
              st = 1 \<and> unit_step a env_config schema i = Invalid errs
              \<and> (\<exists>post. [0..<nat (count a)] = pre @ i # post)
          | Raised e \<Rightarrow>
              (\<exists>i post. [0..<nat (count a)] = pre @ i # post \<and> unit_step a env_config schema i = Failed e))"
    by auto
  have "\<exists>m. m \<le> nat (count a) \<and> pre = [0..<m]"
  proof (cases out)
    case (Completed n)
    with o show ?thesis by auto
  next
    case (Exited st i errs)
    with o obtain post where "pre @ i # post = [0..<nat (count a)]" by auto
    from upt_split[OF this] show ?thesis by (intro exI[of _ i]) simp
  next
    case (Raised e)
    with o obtain i post where "pre @ i # post = [0..<nat (count a)]" by auto
    from upt_split[OF this] show ?thesis by (intro exI[of _ i]) simp
  qed
  with m w r show ?thesis by (auto simp: main_def)
qed


lemma missing_cong:
  assumes "\<And>f. (map_of c1 f = None \<or> map_of c1 f = Some JNull)
               = (map_of c2 f = None \<or> map_of c2 f = Some JNull)"
  shows "missing c1 x = missing c2 x"
  using assms by (cases x) simp_all

lemma check_required_cong:
  assumes "\<And>f. (map_of c1 f = None \<or> map_of c1 f = Some JNull)
               = (map_of c2 f = None \<or> map_of c2 f = Some JNull)"
  shows "check_required c1 xs errors = check_required c2 xs errors"
  by (induction xs arbitrary: errors)
     (simp_all add: missing_cong[of c1 c2, OF assms] split: sum.splits)

lemma validate_config_cong:
  assumes "\<And>f. (map_of c1 f = None \<or> map_of c1 f = Some JNull)
               = (map_of c2 f = None \<or> map_of c2 f = Some JNull)"
      and "map_of c1 (str ''enrollment_api_key'') = map_of c2 (str ''enrollment_api_key'')"
  shows "validate_config c1 schema = validate_config c2 schema"
  unfolding validate_config_def get_default_def assms(2)
    check_required_cong[of c1 c2, OF assms(1)] ..

lemma null_or_absent_Cons:
  assumes "(v = JNull) = (v' = JNull)"
      and "(map_of xs f = None \<or> map_of xs f = Some JNull)
           = (map_of ys f = None \<or> map_of ys f = Some JNull)"
  shows "(map_of ((k, v) # xs) f = None \<or> map_of ((k, v) # xs) f = Some JNull)
         = (map_of ((k, v') # ys) f = None \<or> map_of ((k, v') # ys) f = Some JNull)"
  using assms by simp

lemma generate_single_config_Inl:
  assumes "map_of env_config (str ''config_version'') = None
           \<or> map_of env_config (str ''server_url'') = None
           \<or> map_of env_config (str ''enrollment_api_key'') = None"
  shows "generate_single_config env_config w i1 l n1 = generate_single_config env_config w i2 l n2
         \<and> (\<exists>e. generate_single_config env_config w i1 l n1 = Inl e)"
proof (cases "map_of env_config (str ''config_version'')")
  case None
  then show ?thesis by (simp add: generate_single_config_def)
next
  case cv: (Some cv)
  show ?thesis
  proof (cases "map_of env_config (str ''server_url'')")
    case None
    with cv show ?thesis by (simp add: generate_single_config_def)
  next
    case su: (Some su)
    with cv assms have "map_of env_config (str ''enrollment_api_key'') = None" by simp
    with cv su show ?thesis by (simp add: generate_single_config_def)
  qed
qed

lemma generate_single_config_validate:
  assumes "i1 = None \<longleftrightarrow> i2 = None"
  shows "(case generate_single_config env_config w i1 l n1 of
            Inl e \<Rightarrow> Inl e | Inr config \<Rightarrow> validate_config config schema)
       = (case generate_single_config env_config w i2 l n2 of
            Inl e \<Rightarrow> Inl e | Inr config \<Rightarrow> validate_config config schema)"
proof (cases "map_of env_config (str ''config_version'') = None
           \<or> map_of env_config (str ''server_url'') = None
           \<or> map_of env_config (str ''enrollment_api_key'') = None")
  case True
  from generate_single_config_Inl[OF this, of w i1 l n1 i2 n2] show ?thesis by simp
next
  case False
  then obtain cv su key where e:
    "map_of env_config (str ''config_version'') = Some cv"
    "map_of env_config (str ''server_url'') = Some su"
    "map_of env_config (str ''enrollment_api_key'') = Some key" by auto
  have n: "(json_of_int i1 = JNull) = (json_of_int i2 = JNull)"
    using assms by (cases i1; cases i2) simp_all
  have m: "(JObj (meta_of w i1 n1) = JNull) = (JObj (meta_of w i2 n2) = JNull)" by simp
  show ?thesis
    unfolding generate_single_config_Inr[OF e] sum.case
  proof (rule validate_config_cong)
    fix f
    show "(map_of
            [(str ''config_version'', cv), (str ''server_url'', su),
             (str ''ws_path'', get_default env_config (str ''ws_path'') (JStr (str ''/ws/android''))),
             (str ''enrollment_api_key'', key), (str ''device_id'', JNull),
             (str ''workstation_id'', json_of_str w), (str ''instance_index'', json_of_int i1),
             (str ''location'', location_of env_config l),
             (str ''environment'', get_default env_config (str ''environment'') (JStr (str ''production''))),
             (str ''config_poll_interval_seconds'',
                get_default env_config (str ''config_poll_interval_seconds'') (JInt 86400)),
             (str ''features'', get_default env_config (str ''features'') default_features),
             (str ''meta'', JObj (meta_of w i1 n1))] f = None \<or>
           map_of
            [(str ''config_version'', cv), (str ''server_url'', su),
             (str ''ws_path'', get_default env_config (str ''ws_path'') (JStr (str ''/ws/android''))),
             (str ''enrollment_api_key'', key), (str ''device_id'', JNull),
             (str ''workstation_id'', json_of_str w), (str ''instance_index'', json_of_int i1),
             (str ''location'', location_of env_config l),
             (str ''environment'', get_default env_config (str ''environment'') (JStr (str ''production''))),
             (str ''config_poll_interval_seconds'',
                get_default env_config (str ''config_poll_interval_seconds'') (JInt 86400)),
             (str ''features'', get_default env_config (str ''features'') default_features),
             (str ''meta'', JObj (meta_of w i1 n1))] f = Some JNull)
        = (map_of
            [(str ''config_version'', cv), (str ''server_url'', su),
             (str ''ws_path'', get_default env_config (str ''ws_path'') (JStr (str ''/ws/android''))),
             (str ''enrollment_api_key'', key), (str ''device_id'', JNull),
             (str ''workstation_id'', json_of_str w), (str ''instance_index'', json_of_int i2),
             (str ''location'', location_of env_config l),
             (str ''environment'', get_default env_config (str ''environment'') (JStr (str ''production''))),
             (str ''config_poll_interval_seconds'',
                get_default env_config (str ''config_poll_interval_seconds'') (JInt 86400)),
             (str ''features'', get_default env_config (str ''features'') default_features),
             (str ''meta'', JObj (meta_of w i2 n2))] f = None \<or>
           map_of
            [(str ''config_version'', cv), (str ''server_url'', su),
             (str ''ws_path'', get_default env_config (str ''ws_path'') (JStr (str ''/ws/android''))),
             (str ''enrollment_api_key'', key), (str ''device_id'', JNull),
             (str ''workstation_id'', json_of_str w), (str ''instance_index'', json_of_int i2),
             (str ''location'', location_of env_config l),
             (str ''environment'', get_default env_config (str ''environment'') (JStr (str ''production''))),
             (str ''config_poll_interval_seconds'',
                get_default env_config (str ''config_poll_interval_seconds'') (JInt 86400)),
             (str ''features'', get_default env_config (str ''features'') default_features),
             (str ''meta'', JObj (meta_of w i2 n2))] f = Some JNull)"
      by (intro null_or_absent_Cons refl n m)
  next
    show "map_of
            [(str ''config_version'', cv), (str ''server_url'', su),
             (str ''ws_path'', get_default env_config (str ''ws_path'') (JStr (str ''/ws/android''))),
             (str ''enrollment_api_key'', key), (str ''device_id'', JNull),
             (str ''workstation_id'', json_of_str w), (str ''instance_index'', json_of_int i1),
             (str ''location'', location_of env_config l),
             (str ''environment'', get_default env_config (str ''environment'') (JStr (str ''production''))),
             (str ''config_poll_interval_seconds'',
                get_default env_config (str ''config_poll_interval_seconds'') (JInt 86400)),
             (str ''features'', get_default env_config (str ''features'') default_features),
             (str ''meta'', JObj (meta_of w i1 n1))] (str ''enrollment_api_key'')
        = map_of
            [(str ''config_version'', cv), (str ''server_url'', su),
             (str ''ws_path'', get_default env_config (str ''ws_path'') (JStr (str ''/ws/android''))),
             (str ''enrollment_api_key'', key), (str ''device_id'', JNull),
             (str ''workstation_id'', json_of_str w), (str ''instance_index'', json_of_int i2),
             (str ''location'', location_of env_config l),
             (str ''environment'', get_default env_config (str ''environment'') (JStr (str ''production''))),
             (str ''config_poll_interval_seconds'',
                get_default env_config (str ''config_poll_interval_seconds'') (JInt 86400)),
             (str ''features'', get_default env_config (str ''features'') default_features),
             (str ''meta'', JObj (meta_of w i2 n2))] (str ''enrollment_api_key'')"
      by simp
  qed
qed

lemma unit_index_None: "unit_index a i = None \<longleftrightarrow> unit_index a j = None"
  by (simp add: unit_index_def)

lemma unit_name_Inl: "unit_name a (unit_index a i) = Inl e \<longleftrightarrow> unit_name a (unit_index a j) = Inl e"
  using unit_index_None[of a i j]
  by (auto simp: unit_name_def split: option.splits)

lemma unit_errors_same: "unit_errors a env_config schema i = unit_errors a env_config schema j"
proof (cases "unit_name a (unit_index a i)")
  case (Inl e)
  then have "unit_name a (unit_index a j) = Inl e" using unit_name_Inl by blast
  with Inl show ?thesis by (simp add: unit_errors_def unit_config_def)
next
  case (Inr n1)
  obtain n2 where n2: "unit_name a (unit_index a j) = Inr n2"
    using Inr unit_name_Inl[of a j _ i] by (cases "unit_name a (unit_index a j)") auto
  show ?thesis
    using generate_single_config_validate[OF unit_index_None[of a i j],
        where env_config = env_config and w = "workstation_id a" and l = "location a"
          and ?n1.0 = n1 and ?n2.0 = n2 and schema = schema]
    by (simp add: unit_errors_def unit_config_def Inr n2 split: sum.splits)
qed

lemma main_fails_at_first:
  assumes "i < nat (count a)" and "unit_step a env_config schema i = Invalid errors"
  shows "main a env_config schema = ([], Exited 1 0 errors)"
proof -
  from assms(2) have "unit_step a env_config schema 0 = Invalid errors"
    using unit_errors_same[of a env_config schema i 0] by (simp add: unit_step_Invalid)
  moreover from assms(1) have "[0..<nat (count a)] = 0 # [1..<nat (count a)]"
    by (simp add: upt_conv_Cons)
  ultimately show ?thesis by (simp add: main_def)
qed

subsection \<open>Runs on the example environment\<close>

lemma format_03d_small:
  "format_03d 0 = str ''000''" "format_03d 1 = str ''001''" "format_03d 2 = str ''002''"
  "format_03d 9 = str ''009''"
  by (simp_all add: format_03d_three str_def)

lemma format_03d_more:
  "format_03d 5 = str ''005''" "format_03d 6 = str ''006''" "format_03d 7 = str ''007''"
  by (simp_all add: format_03d_three str_def)

lemma unit_config_fields:
  assumes "unit_config a env_config i = Inr config"
  shows "map_of config (str ''instance_index'') = Some (json_of_int (unit_index a i))"
    and "\<exists>name. unit_name a (unit_index a i) = Inr name
           \<and> map_of config (str ''meta'')
               = Some (JObj (meta_of (workstation_id a) (unit_index a i) name))"
proof -
  from assms obtain name where n: "unit_name a (unit_index a i) = Inr name"
    and g: "generate_single_config env_config (workstation_id a) (unit_index a i) (location a) name
            = Inr config"
    by (auto simp: unit_config_def Let_def split: sum.splits)
  from generate_single_config_cases[OF g] obtain cv su key where
    "map_of env_config (str ''config_version'') = Some cv"
    "map_of env_config (str ''server_url'') = Some su"
    "map_of env_config (str ''enrollment_api_key'') = Some key" by blast
  from generate_single_config_Inr[OF this, of "workstation_id a" "unit_index a i" "location a" name] g
  have c: "config = [(str ''config_version'', cv),
               (str ''server_url'', su),
               (str ''ws_path'', get_default env_config (str ''ws_path'') (JStr (str ''/ws/android''))),
               (str ''enrollment_api_key'', key),
               (str ''device_id'', JNull),
               (str ''workstation_id'', json_of_str (workstation_id a)),
               (str ''instance_index'', json_of_int (unit_index a i)),
               (str ''location'', location_of env_config (location a)),
               (str ''environment'', get_default env_config (str ''environment'') (JStr (str ''production''))),
               (str ''config_poll_interval_seconds'',
                  get_default env_config (str ''config_poll_interval_seconds'') (JInt 86400)),
               (str ''features'', get_default env_config (str ''features'') default_features),
               (str ''meta'', JObj (meta_of (workstation_id a) (unit_index a i) name))]"
    by simp
  show "map_of config (str ''instance_index'') = Some (json_of_int (unit_index a i))"
    unfolding c by simp
  have "map_of config (str ''meta'')
          = Some (JObj (meta_of (workstation_id a) (unit_index a i) name))"
    unfolding c by simp
  with n show "\<exists>name. unit_name a (unit_index a i) = Inr name
           \<and> map_of config (str ''meta'')
               = Some (JObj (meta_of (workstation_id a) (unit_index a i) name))"
    by blast
qed

lemma unit_errors_example:
  assumes "unit_name a (unit_index a i) = Inr name"
  shows "unit_errors a (example_env key) [] i =
           Inr (if key \<noteq> [] \<and> take 5 key \<noteq> str ''sphr_'' then [key_msg key] else [])"
  using assms
  by (simp add: unit_errors_def unit_config_def Let_def generate_single_config_def
        validate_config_def get_default_def example_env_def)

lemma main_example_invalid:
  assumes "0 < count a" and "unit_name a (unit_index a 0) = Inr name"
      and "key \<noteq> []" and "take 5 key \<noteq> str ''sphr_''"
  shows "main a (example_env key) [] = ([], Exited 1 0 [key_msg key])"
proof -
  from unit_errors_example[OF assms(2), of key] assms(3,4)
  have "unit_step a (example_env key) [] 0 = Invalid [key_msg key]"
    by (simp add: unit_step_Invalid)
  moreover from assms(1) have "[0..<nat (count a)] = 0 # [1..<nat (count a)]"
    by (simp add: upt_conv_Cons)
  ultimately show ?thesis by (simp add: main_def)
qed

lemma unit_step_example:
  assumes "unit_name a (unit_index a i) = Inr name"
      and "take 5 key = str ''sphr_''"
      and "file_name a (unit_index a i) = Inr filename"
  shows "\<exists>config. unit_step a (example_env key) [] i = Wrote filename config"
proof -
  from unit_errors_example[OF assms(1), of key] assms(2)
  have e: "unit_errors a (example_env key) [] i = Inr []" by simp
  then obtain config where c: "unit_config a (example_env key) i = Inr config"
    by (cases "unit_config a (example_env key) i") (simp_all add: unit_errors_def)
  with e have "validate_config config [] = Inr []" by (simp add: unit_errors_def)
  with c assms(3) have "unit_step a (example_env key) [] i = Wrote filename config"
    by (simp add: unit_step_def)
  then show ?thesis ..
qed

subsection \<open>Names of the files written\<close>

lemma written_names:
  assumes "m \<le> nat (count a)"
      and "map (unit_step a env_config schema) [0..<m] = map (\<lambda>(fn, c). Wrote fn c) written"
  shows "length written = m"
    and "j < m \<Longrightarrow> file_name a (unit_index a j) = Inr (map fst written ! j)"
proof -
  from assms(2) have "length (map (unit_step a env_config schema) [0..<m])
                      = length (map (\<lambda>(fn, c). Wrote fn c) written)" by (rule arg_cong)
  then show len: "length written = m" by simp
  assume j: "j < m"
  from assms(2) have "map (unit_step a env_config schema) [0..<m] ! j
                      = map (\<lambda>(fn, c). Wrote fn c) written ! j" by (rule arg_cong)
  with j len have "unit_step a env_config schema j = (\<lambda>(fn, c). Wrote fn c) (written ! j)"
    by simp
  then have "unit_step a env_config schema j = Wrote (fst (written ! j)) (snd (written ! j))"
    by (simp add: case_prod_beta)
  from unit_step_Wrote[OF this] j len show "file_name a (unit_index a j) = Inr (map fst written ! j)"
    by simp
qed

lemma written_distinct:
  assumes "count a \<le> 1 \<or> given (workstation_id a)"
  shows "distinct (map fst (fst (main a env_config schema)))"
proof -
  let ?w = "fst (main a env_config schema)"
  from main_written[of a env_config schema] obtain m where
    m: "m \<le> nat (count a)"
    and s: "map (unit_step a env_config schema) [0..<m] = map (\<lambda>(fn, c). Wrote fn c) ?w"
    by blast
  note len = written_names(1)[OF m s] and nth = written_names(2)[OF m s]
  show ?thesis
  proof (cases "count a \<le> 1")
    case True
    with m len have "length (map fst ?w) \<le> 1" by simp
    then show ?thesis by (cases "map fst ?w") simp_all
  next
    case False
    with assms have g: "given (workstation_id a)" and c: "count a \<noteq> 1" by simp_all
    have "map fst ?w ! i \<noteq> map fst ?w ! j" if "i < m" "j < m" "i \<noteq> j" for i j
    proof
      assume e: "map fst ?w ! i = map fst ?w ! j"
      from nth[OF that(1)] nth[OF that(2)] e
      have "file_name a (unit_index a i) = file_name a (unit_index a j)" by simp
      with g c have "format_03d (start_index a + int i) = format_03d (start_index a + int j)"
        by (simp add: file_name_def unit_index_def)
      then have "start_index a + int i = start_index a + int j" by (simp only: format_03d_inj)
      with that(3) show False by simp
    qed
    with len show ?thesis by (simp add: distinct_conv_nth)
  qed
qed

lemma written_units:
  assumes "m \<le> nat (count a)"
      and "map (unit_step a env_config schema) [0..<m] = map (\<lambda>(fn, c). Wrote fn c) written"
      and "j < m"
  shows "unit_step a env_config schema j = Wrote (fst (written ! j)) (snd (written ! j))"
proof -
  from assms(2) have "length (map (unit_step a env_config schema) [0..<m])
                      = length (map (\<lambda>(fn, c). Wrote fn c) written)" by (rule arg_cong)
  then have len: "length written = m" by simp
  from assms(2) have "map (unit_step a env_config schema) [0..<m] ! j
                      = map (\<lambda>(fn, c). Wrote fn c) written ! j" by (rule arg_cong)
  with assms(3) len have "unit_step a env_config schema j = (\<lambda>(fn, c). Wrote fn c) (written ! j)"
    by simp
  then show ?thesis by (simp add: case_prod_beta)
qed

lemma main_Completed:
  assumes "main a env_config schema = (written, Completed n)"
  shows "n = nat (count a) \<and> length written = nat (count a)"
proof -
  from assms have "main_loop a env_config schema [0..<nat (count a)] [] 0
                   = (written, Completed n)"
    by (simp only: main_def)
  from main_loop_run[OF this] obtain pre ws where
    w: "written = [] @ ws"
    and m: "map (unit_step a env_config schema) pre = map (\<lambda>(fn, c). Wrote fn c) ws"
    and o: "pre = [0..<nat (count a)] \<and> n = 0 + length [0..<nat (count a)]"
    unfolding outcome.case by blast
  from m have "length (map (unit_step a env_config schema) pre)
               = length (map (\<lambda>(fn, c). Wrote fn c) ws)" by (rule arg_cong)
  with w o show ?thesis by simp
qed

lemma written_entry:
  assumes "unit_step a env_config schema i = Wrote filename config"
  shows "count a = 1 \<longrightarrow>
           filename = (case output_file a of
                         None \<Rightarrow> str ''sphere-agent-config.json''
                       | Some f \<Rightarrow> if f \<noteq> [] then f else str ''sphere-agent-config.json'')"
    and "count a \<noteq> 1 \<longrightarrow>
           (\<exists>k. unit_index a i = Some k
              \<and> filename = str ''sphere-agent-config-'' @ format_03d k @ str ''.json''
              \<and> map_of config (str ''instance_index'') = Some (JInt k))"
proof -
  from unit_step_Wrote[OF assms] have c: "unit_config a env_config i = Inr config"
    and f: "file_name a (unit_index a i) = Inr filename" by simp_all
  from f show "count a = 1 \<longrightarrow>
           filename = (case output_file a of
                         None \<Rightarrow> str ''sphere-agent-config.json''
                       | Some f \<Rightarrow> if f \<noteq> [] then f else str ''sphere-agent-config.json'')"
    by (auto simp: file_name_def default_file_name_def split: option.splits)
  show "count a \<noteq> 1 \<longrightarrow>
           (\<exists>k. unit_index a i = Some k
              \<and> filename = str ''sphere-agent-config-'' @ format_03d k @ str ''.json''
              \<and> map_of config (str ''instance_index'') = Some (JInt k))"
  proof
    assume n: "count a \<noteq> 1"
    with f obtain k where k: "unit_index a i = Some k"
      and fn: "filename = str ''sphere-agent-config-'' @ format_03d k @ str ''.json''"
      by (cases "unit_index a i") (simp_all add: file_name_def)
    from unit_config_fields(1)[OF c] k
    have "map_of config (str ''instance_index'') = Some (JInt k)" by simp
    with k fn show "\<exists>k. unit_index a i = Some k
              \<and> filename = str ''sphere-agent-config-'' @ format_03d k @ str ''.json''
              \<and> map_of config (str ''instance_index'') = Some (JInt k)" by blast
  qed
qed

lemma main_entries:
  "\<exists>m \<le> nat (count a). length (fst (main a env_config schema)) = m
     \<and> (\<forall>i < m. unit_step a env_config schema i
                   = Wrote (fst (fst (main a env_config schema) ! i))
                           (snd (fst (main a env_config schema) ! i)))"
proof -
  from main_written[of a env_config schema] obtain m where
    m: "m \<le> nat (count a)"
    and s: "map (unit_step a env_config schema) [0..<m]
            = map (\<lambda>(fn, c). Wrote fn c) (fst (main a env_config schema))"
    by blast
  from written_names(1)[OF m s] written_units[OF m s] m show ?thesis by blast
qed

subsection \<open>The claims on the batch driver\<close>

text \<open>
  Claim C4, as amended. If the workstation identifier is supplied and is not the empty
  string, the unit at loop offset \<open>i\<close> has the instance index \<open>start_index + i\<close>. If it is
  not supplied, or is the empty string, every unit has the instance index argument,
  unchanged. The record synthesized for the unit holds that index in its field
  \<open>instance_index\<close>.
\<close>

theorem unit_index_derivation:
  "(given (workstation_id a) \<longrightarrow> unit_index a i = Some (start_index a + int i))
   \<and> (\<not> given (workstation_id a) \<longrightarrow> unit_index a i = instance_index a)
   \<and> (unit_config a env_config i = Inr config \<longrightarrow>
        map_of config (str ''instance_index'') = Some (json_of_int (unit_index a i)))"
  using unit_config_fields(1)[of a env_config i config] by (simp add: unit_index_def)

theorem unit_index_derivation_witness:
  "map (unit_index (example_args (Some (str ''ws-PC-FARM-01'')) None None 3 5)) [0, 1, 2]
     = [Some 5, Some 6, Some 7]
   \<and> map (unit_index (example_args None (Some 9) None 3 0)) [0, 1, 2]
     = [Some 9, Some 9, Some 9]
   \<and> (\<exists>config. unit_config (example_args (Some (str ''ws-PC-FARM-01'')) None None 3 5)
                  (example_env (str ''sphr_k1'')) 2 = Inr config
         \<and> map_of config (str ''instance_index'') = Some (JInt 7))"
proof -
  let ?A = "example_args (Some (str ''ws-PC-FARM-01'')) None None 3 5"
  let ?B = "example_args None (Some 9) None 3 0"
  let ?E = "example_env (str ''sphr_k1'')"
  obtain config where c: "unit_config ?A ?E 2 = Inr config"
    by (simp add: unit_config_def Let_def unit_index_def unit_name_def generate_single_config_def
          example_env_def example_args_def)
  have g: "given (workstation_id ?A)" "\<not> given (workstation_id ?B)"
    "start_index ?A = 5" "instance_index ?B = Some 9"
    by (simp_all add: example_args_def)
  from unit_index_derivation[of ?A 0 ?E config] unit_index_derivation[of ?A 1 ?E config]
    unit_index_derivation[of ?A 2 ?E config]
    unit_index_derivation[of ?B 0 ?E config] unit_index_derivation[of ?B 1 ?E config]
    unit_index_derivation[of ?B 2 ?E config] c g
  show ?thesis by simp
qed

text \<open>
  Claim C4 as stated fails for a workstation identifier that is supplied as the empty
  string: with \<open>count = 3\<close>, \<open>start_index = 5\<close> and the instance index 9, the three units
  get the index 9, not 5, 6, 7.
\<close>

theorem empty_workstation_id_counterexample:
  "map (unit_index (example_args (Some []) (Some 9) None 3 5)) [0, 1, 2]
     = [Some 9, Some 9, Some 9]"
  by (simp add: unit_index_def example_args_def)

text \<open>
  Claim C5. If the unit at some offset \<open>i\<close> of the batch fails validation with the list
  \<open>errors\<close>, the run ends by \<open>sys.exit(1)\<close> at a unit \<open>j\<close>, not after \<open>i\<close>, that fails with these
  errors. The files written are those of the units before \<open>j\<close>, one each and in order:
  neither the failing unit nor a later one is written, and the earlier writes stay.
\<close>

theorem validation_failure_aborts:
  assumes "i < nat (count a)" and "unit_step a env_config schema i = Invalid errors"
  shows "\<exists>j written. main a env_config schema = (written, Exited 1 j errors)
           \<and> j \<le> i \<and> unit_step a env_config schema j = Invalid errors
           \<and> length written = j
           \<and> map (unit_step a env_config schema) [0..<j] = map (\<lambda>(fn, c). Wrote fn c) written"
proof -
  from main_fails_at_first[OF assms] have m: "main a env_config schema = ([], Exited 1 0 errors)" .
  from main_Exited[OF m] have "unit_step a env_config schema 0 = Invalid errors" by simp
  with m show ?thesis by (intro exI[of _ 0] exI[of _ "[]"]) simp
qed

theorem validation_failure_aborts_witness:
  "\<exists>j written.
      main (example_args (Some (str ''ws-1'')) None None 2 0) (example_env (str ''bad_key'')) []
        = (written, Exited 1 j [key_msg (str ''bad_key'')])
      \<and> j \<le> 1
      \<and> unit_step (example_args (Some (str ''ws-1'')) None None 2 0)
           (example_env (str ''bad_key'')) [] j = Invalid [key_msg (str ''bad_key'')]
      \<and> length written = j
      \<and> map (unit_step (example_args (Some (str ''ws-1'')) None None 2 0)
               (example_env (str ''bad_key'')) []) [0..<j]
          = map (\<lambda>(fn, c). Wrote fn c) written"
proof -
  let ?A = "example_args (Some (str ''ws-1'')) None None 2 0"
  let ?E = "example_env (str ''bad_key'')"
  have "unit_name ?A (unit_index ?A 1) = Inr (Some (str ''Farm-'' @ format_03d 1))"
    by (simp add: unit_name_def unit_index_def example_args_def)
  from unit_errors_example[OF this, of "str ''bad_key''"]
  have "unit_errors ?A ?E [] 1 = Inr [key_msg (str ''bad_key'')]"
    by (simp add: str_def)
  then have h: "unit_step ?A ?E [] 1 = Invalid [key_msg (str ''bad_key'')]"
    by (simp add: unit_step_Invalid)
  have c: "1 < nat (count ?A)" by (simp add: example_args_def)
  from validation_failure_aborts[OF c h] show ?thesis by simp
qed

text \<open>
  Claim C6, as amended. When exactly one unit is requested, the file name is the output
  file argument if it is given and not the empty string, and \<open>sphere-agent-config.json\<close>
  otherwise. When more than one unit is requested, the file name of a unit with instance
  index \<open>k\<close> is \<open>sphere-agent-config-\<close>, then \<open>k\<close> in the format \<open>03d\<close> (three digits for
  \<open>0 \<le> k < 1000\<close>), then \<open>.json\<close>. The names of the files written in a run are distinct
  if at most one unit is requested or the workstation identifier is supplied and not
  empty. The files written in a run are those of its first units, in order: the \<open>i\<close>-th
  file written has the name given by this rule for the instance index of the unit at
  offset \<open>i\<close>, which is also the index held by the record dumped to the file; a run that
  completes has written one file for each unit requested.
\<close>

theorem file_names:
  "(count a = 1 \<longrightarrow>
      file_name a idx = Inr (case output_file a of
                               None \<Rightarrow> str ''sphere-agent-config.json''
                             | Some f \<Rightarrow> if f \<noteq> [] then f else str ''sphere-agent-config.json''))
   \<and> (count a > 1 \<longrightarrow>
        file_name a (Some k) = Inr (str ''sphere-agent-config-'' @ format_03d k @ str ''.json''))
   \<and> (0 \<le> k \<and> k < 1000 \<longrightarrow>
        format_03d k = [48 + nat k div 100, 48 + nat k div 10 mod 10, 48 + nat k mod 10])
   \<and> (count a \<le> 1 \<or> given (workstation_id a) \<longrightarrow>
        distinct (map fst (fst (main a env_config schema))))
   \<and> (\<exists>m \<le> nat (count a). length (fst (main a env_config schema)) = m
        \<and> (\<forall>i < m.
              (count a = 1 \<longrightarrow>
                 fst (fst (main a env_config schema) ! i)
                   = (case output_file a of
                        None \<Rightarrow> str ''sphere-agent-config.json''
                      | Some f \<Rightarrow> if f \<noteq> [] then f else str ''sphere-agent-config.json''))
            \<and> (count a \<noteq> 1 \<longrightarrow>
                 (\<exists>j. unit_index a i = Some j
                    \<and> fst (fst (main a env_config schema) ! i)
                        = str ''sphere-agent-config-'' @ format_03d j @ str ''.json''
                    \<and> map_of (snd (fst (main a env_config schema) ! i)) (str ''instance_index'')
                        = Some (JInt j)))))
   \<and> (snd (main a env_config schema) = Completed n \<longrightarrow>
        n = nat (count a) \<and> length (fst (main a env_config schema)) = nat (count a))"
proof -
  have 1: "count a = 1 \<longrightarrow>
      file_name a idx = Inr (case output_file a of
                               None \<Rightarrow> str ''sphere-agent-config.json''
                             | Some f \<Rightarrow> if f \<noteq> [] then f else str ''sphere-agent-config.json'')"
    by (simp add: file_name_def default_file_name_def split: option.splits)
  have 2: "count a > 1 \<longrightarrow>
        file_name a (Some k) = Inr (str ''sphere-agent-config-'' @ format_03d k @ str ''.json'')"
    by (simp add: file_name_def)
  from main_entries[of a env_config schema] obtain m where
    m: "m \<le> nat (count a)" "length (fst (main a env_config schema)) = m"
    and s: "\<And>i. i < m \<Longrightarrow> unit_step a env_config schema i
                   = Wrote (fst (fst (main a env_config schema) ! i))
                           (snd (fst (main a env_config schema) ! i))"
    by blast
  have 5: "\<exists>m \<le> nat (count a). length (fst (main a env_config schema)) = m
        \<and> (\<forall>i < m.
              (count a = 1 \<longrightarrow>
                 fst (fst (main a env_config schema) ! i)
                   = (case output_file a of
                        None \<Rightarrow> str ''sphere-agent-config.json''
                      | Some f \<Rightarrow> if f \<noteq> [] then f else str ''sphere-agent-config.json''))
            \<and> (count a \<noteq> 1 \<longrightarrow>
                 (\<exists>j. unit_index a i = Some j
                    \<and> fst (fst (main a env_config schema) ! i)
                        = str ''sphere-agent-config-'' @ format_03d j @ str ''.json''
                    \<and> map_of (snd (fst (main a env_config schema) ! i)) (str ''instance_index'')
                        = Some (JInt j))))"
    using m written_entry[OF s] by blast
  have 6: "snd (main a env_config schema) = Completed n \<longrightarrow>
        n = nat (count a) \<and> length (fst (main a env_config schema)) = nat (count a)"
    using main_Completed[of a env_config schema "fst (main a env_config schema)" n]
    by (cases "main a env_config schema") simp
  from 1 2 5 6 format_03d_three[of k] written_distinct[of a env_config schema]
  show ?thesis by blast
qed

theorem file_names_witness:
  "map fst (fst (main (example_args (Some (str ''ws-1'')) None None 3 5)
                   (example_env (str ''sphr_k1'')) []))
     = [str ''sphere-agent-config-005.json'', str ''sphere-agent-config-006.json'',
        str ''sphere-agent-config-007.json'']
   \<and> distinct (map fst (fst (main (example_args (Some (str ''ws-1'')) None None 3 5)
                   (example_env (str ''sphr_k1'')) [])))
   \<and> snd (main (example_args (Some (str ''ws-1'')) None None 3 5)
                   (example_env (str ''sphr_k1'')) []) = Completed 3
   \<and> map (\<lambda>c. map_of c (str ''instance_index''))
        (map snd (fst (main (example_args (Some (str ''ws-1'')) None None 3 5)
                   (example_env (str ''sphr_k1'')) [])))
     = [Some (JInt 5), Some (JInt 6), Some (JInt 7)]
   \<and> file_name (example_args None None None 1 0) None = Inr (str ''sphere-agent-config.json'')"
proof -
  let ?A = "example_args (Some (str ''ws-1'')) None None 3 5"
  let ?B = "example_args None None None 1 0"
  let ?E = "example_env (str ''sphr_k1'')"
  let ?w = "fst (main ?A ?E [])"
  have k: "take 5 (str ''sphr_k1'') = str ''sphr_''" by (simp add: str_def)
  have n: "unit_name ?A (unit_index ?A j) = Inr (Some (str ''Farm-'' @ format_03d (5 + int j)))" for j
    by (simp add: unit_name_def unit_index_def example_args_def)
  have f: "file_name ?A (unit_index ?A 0) = Inr (str ''sphere-agent-config-005.json'')"
    "file_name ?A (unit_index ?A 1) = Inr (str ''sphere-agent-config-006.json'')"
    "file_name ?A (unit_index ?A 2) = Inr (str ''sphere-agent-config-007.json'')"
    by (simp_all add: file_name_def unit_index_def example_args_def format_03d_more)
       (simp_all add: str_def)
  from unit_step_example[OF n k f(1)] obtain c0 where
    c0: "unit_step ?A ?E [] 0 = Wrote (str ''sphere-agent-config-005.json'') c0" by blast
  from unit_step_example[OF n k f(2)] obtain c1 where
    c1: "unit_step ?A ?E [] 1 = Wrote (str ''sphere-agent-config-006.json'') c1" by blast
  from unit_step_example[OF n k f(3)] obtain c2 where
    c2: "unit_step ?A ?E [] 2 = Wrote (str ''sphere-agent-config-007.json'') c2" by blast
  have r: "[0..<nat (count ?A)] = [0, 1, 2]"
    by (simp add: example_args_def upt_conv_Cons)
  have m: "main ?A ?E [] =
     ([(str ''sphere-agent-config-005.json'', c0), (str ''sphere-agent-config-006.json'', c1),
       (str ''sphere-agent-config-007.json'', c2)], Completed 3)"
    unfolding main_def r using c0 c1 c2 by simp
  have g: "given (workstation_id ?A)" "count ?B = 1" "output_file ?B = None" "count ?A \<noteq> 1"
    "unit_index ?A 0 = Some 5" "unit_index ?A 1 = Some 6" "unit_index ?A 2 = Some 7"
    by (simp_all add: example_args_def unit_index_def)
  from file_names[of ?A None 0 ?E "[]" 3] obtain l where
    l: "length ?w = l"
    and e: "\<And>i. i < l \<Longrightarrow> (count ?A \<noteq> 1 \<longrightarrow>
                 (\<exists>j. unit_index ?A i = Some j
                    \<and> fst (?w ! i) = str ''sphere-agent-config-'' @ format_03d j @ str ''.json''
                    \<and> map_of (snd (?w ! i)) (str ''instance_index'') = Some (JInt j)))"
    and d: "distinct (map fst ?w)"
    using g(1) by blast
  from l m have l3: "l = 3" by simp
  from e[of 0] e[of 1] e[of 2] l3 g m
  have i: "map_of c0 (str ''instance_index'') = Some (JInt 5)"
    "map_of c1 (str ''instance_index'') = Some (JInt 6)"
    "map_of c2 (str ''instance_index'') = Some (JInt 7)"
    by simp_all
  from file_names[of ?B None 0 ?E "[]" 0] g
  have b: "file_name ?B None = Inr (str ''sphere-agent-config.json'')" by simp
  from m d i b show ?thesis by simp
qed

text \<open>
  Claim C6 as stated fails for a batch without workstation identifier: with \<open>count = 2\<close>
  and the instance index 9, both units are written to \<open>sphere-agent-config-009.json\<close>.
\<close>

theorem same_index_counterexample:
  "map fst (fst (main (example_args None (Some 9) None 2 0) (example_env (str ''sphr_k1'')) []))
     = [str ''sphere-agent-config-009.json'', str ''sphere-agent-config-009.json'']"
proof -
  let ?A = "example_args None (Some 9) None 2 0"
  let ?E = "example_env (str ''sphr_k1'')"
  have k: "take 5 (str ''sphr_k1'') = str ''sphr_''" by (simp add: str_def)
  have n: "unit_name ?A (unit_index ?A j) = Inr (Some (str ''Farm-'' @ format_03d 9))" for j
    by (simp add: unit_name_def unit_index_def example_args_def)
  have f: "file_name ?A (unit_index ?A j) = Inr (str ''sphere-agent-config-009.json'')" for j
    by (simp add: file_name_def unit_index_def example_args_def format_03d_small)
       (simp add: str_def)
  from unit_step_example[OF n k f] obtain c0 where
    c0: "unit_step ?A ?E [] 0 = Wrote (str ''sphere-agent-config-009.json'') c0" by blast
  from unit_step_example[OF n k f] obtain c1 where
    c1: "unit_step ?A ?E [] 1 = Wrote (str ''sphere-agent-config-009.json'') c1" by blast
  have r: "[0..<nat (count ?A)] = [0, 1]"
    by (simp add: example_args_def upt_conv_Cons)
  show ?thesis unfolding main_def r using c0 c1 by simp
qed

text \<open>
  Claim C7, as amended. In a batch of more than one unit with no display name given (or
  the empty string), a unit that has an instance index \<open>k\<close> gets the display name \<open>Farm-\<close>
  followed by \<open>k\<close> in the format \<open>03d\<close>, which is three digits for \<open>0 \<le> k < 1000\<close>; the
  record synthesized for the unit holds this name in its metadata.
\<close>

theorem unit_name_farm:
  assumes "count a > 1" and "\<not> given (ldplayer_name a)" and "unit_index a i = Some k"
  shows "unit_name a (unit_index a i) = Inr (Some (str ''Farm-'' @ format_03d k))
       \<and> (0 \<le> k \<and> k < 1000 \<longrightarrow>
            format_03d k = [48 + nat k div 100, 48 + nat k div 10 mod 10, 48 + nat k mod 10])
       \<and> (unit_config a env_config i = Inr config \<longrightarrow>
            (\<exists>meta. map_of config (str ''meta'') = Some (JObj meta)
               \<and> map_of meta (str ''ldplayer_name'')
                   = Some (JStr (str ''Farm-'' @ format_03d k))))"
proof -
  have n: "unit_name a (unit_index a i) = Inr (Some (str ''Farm-'' @ format_03d k))"
    using assms by (simp add: unit_name_def)
  have "\<exists>meta. map_of config (str ''meta'') = Some (JObj meta)
               \<and> map_of meta (str ''ldplayer_name'')
                   = Some (JStr (str ''Farm-'' @ format_03d k))"
    if c: "unit_config a env_config i = Inr config"
  proof -
    from unit_config_fields(2)[OF c] n
    have "map_of config (str ''meta'')
           = Some (JObj (meta_of (workstation_id a) (unit_index a i)
                           (Some (str ''Farm-'' @ format_03d k))))"
      by simp
    moreover have "map_of (meta_of (workstation_id a) (unit_index a i)
                           (Some (str ''Farm-'' @ format_03d k))) (str ''ldplayer_name'')
                   = Some (JStr (str ''Farm-'' @ format_03d k))"
      by (simp add: meta_of_def)
    ultimately show ?thesis by blast
  qed
  with n format_03d_three[of k] show ?thesis by blast
qed

theorem unit_name_farm_witness:
  "unit_name (example_args (Some (str ''ws-1'')) None None 2 0)
     (unit_index (example_args (Some (str ''ws-1'')) None None 2 0) 0)
     = Inr (Some (str ''Farm-000''))
   \<and> unit_name (example_args (Some (str ''ws-1'')) None None 2 0)
     (unit_index (example_args (Some (str ''ws-1'')) None None 2 0) 1)
     = Inr (Some (str ''Farm-001''))"
proof -
  let ?A = "example_args (Some (str ''ws-1'')) None None 2 0"
  have a: "count ?A > 1" "\<not> given (ldplayer_name ?A)"
    "unit_index ?A 0 = Some 0" "unit_index ?A 1 = Some 1"
    by (simp_all add: example_args_def unit_index_def)
  from unit_name_farm[OF a(1,2,3)] unit_name_farm[OF a(1,2,4)]
  show ?thesis by (simp add: str_def)
qed

text \<open>
  Claim C7 as stated fails for a batch with neither workstation identifier nor instance
  index: with \<open>count = 2\<close> and no display name, no display name is synthesized for unit 0,
  the formatting raises \<open>TypeError\<close>.
\<close>

theorem no_index_counterexample:
  "unit_name (example_args None None None 2 0) (unit_index (example_args None None None 2 0) 0)
     = Inl TypeError"
  by (simp add: unit_name_def unit_index_def example_args_def)

text \<open>
  Claim C9, as amended. Let more than one unit be requested, with no workstation
  identifier (or the empty string) and no instance index. Then the index of every unit
  is null, formatting it in a file name raises \<open>TypeError\<close>, no file is written and the
  run does not complete. If moreover no display name is given (or the empty string), no
  record is produced: formatting the display name of the first unit raises \<open>TypeError\<close>,
  which ends the run. If a display name is given, nothing is formatted before the
  synthesizer is called, with the null index and the given name, and it returns a
  record when the environment document holds the three copied fields. The run then
  ends at the first unit: with the exception of the synthesizer or of the validator if
  one is raised, by \<open>sys.exit(1)\<close> with the errors if the validation fails, and with the
  \<open>TypeError\<close> of formatting the file name if the validation succeeds.
\<close>

theorem null_index_type_error:
  assumes "count a > 1" and "\<not> given (workstation_id a)" and "instance_index a = None"
  shows "unit_index a i = None
       \<and> file_name a (unit_index a i) = Inl TypeError
       \<and> fst (main a env_config schema) = []
       \<and> (\<forall>n. snd (main a env_config schema) \<noteq> Completed n)
       \<and> (\<not> given (ldplayer_name a) \<longrightarrow>
            unit_config a env_config i = Inl TypeError
            \<and> main a env_config schema = ([], Raised TypeError))
       \<and> (given (ldplayer_name a) \<longrightarrow>
            unit_config a env_config i
              = generate_single_config env_config (workstation_id a) None (location a)
                  (ldplayer_name a)
            \<and> (map_of env_config (str ''config_version'') = Some cv
                 \<and> map_of env_config (str ''server_url'') = Some su
                 \<and> map_of env_config (str ''enrollment_api_key'') = Some key
               \<longrightarrow> (\<exists>config. unit_config a env_config i = Inr config))
            \<and> (unit_config a env_config 0 = Inl e
               \<longrightarrow> main a env_config schema = ([], Raised e))
            \<and> (unit_config a env_config 0 = Inr config \<and> validate_config config schema = Inl e
               \<longrightarrow> main a env_config schema = ([], Raised e))
            \<and> (unit_config a env_config 0 = Inr config
                 \<and> validate_config config schema = Inr errors \<and> errors \<noteq> []
               \<longrightarrow> main a env_config schema = ([], Exited 1 0 errors))
            \<and> (unit_config a env_config 0 = Inr config \<and> validate_config config schema = Inr []
               \<longrightarrow> main a env_config schema = ([], Raised TypeError)))"
proof -
  have idx: "unit_index a j = None" for j using assms(2,3) by (simp add: unit_index_def)
  have fn: "file_name a (unit_index a j) = Inl TypeError" for j
    using assms(1) by (simp add: idx file_name_def)
  have upt: "[0..<nat (count a)] = 0 # [1..<nat (count a)]"
    using assms(1) by (simp add: upt_conv_Cons)
  have nw: "unit_step a env_config schema 0 \<noteq> Wrote filename config" for filename config
    using unit_step_Wrote[of a env_config schema 0 filename config] fn[of 0] by auto
  have m: "fst (main a env_config schema) = []
       \<and> (\<forall>n. snd (main a env_config schema) \<noteq> Completed n)"
  proof (cases "unit_step a env_config schema 0")
    case (Wrote filename config)
    with nw show ?thesis by blast
  next
    case (Invalid errors)
    then show ?thesis by (simp add: main_def upt)
  next
    case (Failed e)
    then show ?thesis by (simp add: main_def upt)
  qed
  have a: "unit_config a env_config i = Inl TypeError
        \<and> main a env_config schema = ([], Raised TypeError)"
    if n: "\<not> given (ldplayer_name a)"
  proof -
    have c: "unit_config a env_config j = Inl TypeError" for j
      using assms(1) n by (simp add: unit_config_def Let_def unit_name_def idx)
    then have "unit_step a env_config schema 0 = Failed TypeError"
      by (simp add: unit_step_def)
    with c show ?thesis by (simp add: main_def upt)
  qed
  have b1: "unit_config a env_config i
              = generate_single_config env_config (workstation_id a) None (location a)
                  (ldplayer_name a)"
    if "given (ldplayer_name a)"
    using assms(1) that by (simp add: unit_config_def Let_def unit_name_def idx)
  have b2: "\<exists>config. unit_config a env_config i = Inr config"
    if "given (ldplayer_name a)" "map_of env_config (str ''config_version'') = Some cv"
       "map_of env_config (str ''server_url'') = Some su"
       "map_of env_config (str ''enrollment_api_key'') = Some key"
    unfolding b1[OF that(1)] generate_single_config_Inr[OF that(2,3,4)] by blast
  have b3: "main a env_config schema = ([], Raised e)"
    if "unit_config a env_config 0 = Inl e"
    using that by (simp add: main_def upt unit_step_def)
  have b4: "main a env_config schema = ([], Raised e)"
    if "unit_config a env_config 0 = Inr config" "validate_config config schema = Inl e"
    using that by (simp add: main_def upt unit_step_def)
  have b5: "main a env_config schema = ([], Exited 1 0 errors)"
    if "unit_config a env_config 0 = Inr config" "validate_config config schema = Inr errors"
       "errors \<noteq> []"
    using that by (simp add: main_def upt unit_step_def)
  have b6: "main a env_config schema = ([], Raised TypeError)"
    if "unit_config a env_config 0 = Inr config" "validate_config config schema = Inr []"
    using that fn[of 0] by (simp add: main_def upt unit_step_def)
  from idx fn m a b1 b2 b3 b4 b5 b6 show ?thesis by blast
qed

theorem null_index_type_error_witness:
  "main (example_args None None None 2 0) (example_env (str ''sphr_k1'')) []
     = ([], Raised TypeError)
   \<and> unit_config (example_args None None None 2 0) (example_env (str ''sphr_k1'')) 1
     = Inl TypeError
   \<and> (\<exists>config. unit_config (example_args None None (Some (str ''dev'')) 2 0)
                  (example_env (str ''sphr_k1'')) 0 = Inr config
         \<and> validate_config config [] = Inr [])
   \<and> main (example_args None None (Some (str ''dev'')) 2 0) (example_env (str ''sphr_k1'')) []
     = ([], Raised TypeError)"
proof -
  let ?A = "example_args None None None 2 0"
  let ?B = "example_args None None (Some (str ''dev'')) 2 0"
  let ?E = "example_env (str ''sphr_k1'')"
  have a: "count ?A > 1" "\<not> given (workstation_id ?A)" "instance_index ?A = None"
    "\<not> given (ldplayer_name ?A)"
    by (simp_all add: example_args_def)
  have b: "count ?B > 1" "\<not> given (workstation_id ?B)" "instance_index ?B = None"
    "given (ldplayer_name ?B)"
    by (simp_all add: example_args_def str_def)
  have e: "map_of ?E (str ''config_version'') = Some (JInt 1)"
    "map_of ?E (str ''server_url'') = Some (JStr (str ''https://sphere.example''))"
    "map_of ?E (str ''enrollment_api_key'') = Some (JStr (str ''sphr_k1''))"
    by (simp_all add: example_env_def)
  note B = null_index_type_error[OF b(1,2,3), of 0 ?E "[]" "JInt 1"
      "JStr (str ''https://sphere.example'')" "JStr (str ''sphr_k1'')"]
  from B b(4) e obtain config where c: "unit_config ?B ?E 0 = Inr config" by blast
  have "unit_name ?B (unit_index ?B 0) = Inr (Some (str ''dev''))"
    by (simp add: unit_name_def unit_index_def example_args_def str_def)
  from unit_errors_example[OF this, of "str ''sphr_k1''"]
  have "unit_errors ?B ?E [] 0 = Inr []" by (simp add: str_def)
  with c have v: "validate_config config [] = Inr []" by (simp add: unit_errors_def)
  from B[of _ config] b(4) c v have mB: "main ?B ?E [] = ([], Raised TypeError)" by blast
  from null_index_type_error[OF a(1,2,3), of 1 ?E "[]"] a(4)
  have mA: "main ?A ?E [] = ([], Raised TypeError)" "unit_config ?A ?E 1 = Inl TypeError"
    by blast+
  from mA mB c v show ?thesis by blast
qed

text \<open>
  Claim C9 as stated fails when a display name is given: the name is not formatted, a
  record is produced and validated, and with a credential that does not start with
  \<open>sphr_\<close> the run reports the validation error and ends by \<open>sys.exit(1)\<close>.
\<close>

theorem display_name_given_counterexample:
  "main (example_args None None (Some (str ''dev'')) 2 0) (example_env (str ''bad_key'')) []
     = ([], Exited 1 0 [key_msg (str ''bad_key'')])"
  by (rule main_example_invalid[where name = "Some (str ''dev'')"])
     (simp_all add: unit_name_def unit_index_def example_args_def str_def)

text \<open>
  Claim C10. In a run, the validation of every unit has the same result, error list or
  exception. Hence a run that ends on a failed validation ends at unit 0, with nothing
  written, and the errors reported are those of unit 0.
\<close>

theorem validation_uniform:
  "unit_errors a env_config schema i = unit_errors a env_config schema j
   \<and> (main a env_config schema = (written, Exited status k errors) \<longrightarrow>
        k = 0 \<and> written = [] \<and> unit_errors a env_config schema 0 = Inr errors)"
proof -
  have "k = 0 \<and> written = [] \<and> unit_errors a env_config schema 0 = Inr errors"
    if m: "main a env_config schema = (written, Exited status k errors)"
  proof -
    from main_Exited[OF m] have k: "k < nat (count a)"
      and s: "unit_step a env_config schema k = Invalid errors" by simp_all
    from main_fails_at_first[OF k s] m have "k = 0" "written = []" by simp_all
    moreover from s have "unit_errors a env_config schema k = Inr errors"
      by (simp add: unit_step_Invalid)
    ultimately show ?thesis by simp
  qed
  with unit_errors_same[of a env_config schema i j] show ?thesis by blast
qed

theorem validation_uniform_witness:
  "main (example_args (Some (str ''ws-1'')) None None 2 0) (example_env (str ''bad_key'')) []
     = ([], Exited 1 0 [key_msg (str ''bad_key'')])
   \<and> unit_errors (example_args (Some (str ''ws-1'')) None None 2 0)
        (example_env (str ''bad_key'')) [] 1 = Inr [key_msg (str ''bad_key'')]"
proof -
  let ?A = "example_args (Some (str ''ws-1'')) None None 2 0"
  let ?E = "example_env (str ''bad_key'')"
  have m: "main ?A ?E [] = ([], Exited 1 0 [key_msg (str ''bad_key'')])"
    by (rule main_example_invalid[where name = "Some (str ''Farm-'' @ format_03d 0)"])
       (simp_all add: unit_name_def unit_index_def example_args_def str_def)
  from validation_uniform[of ?A ?E "[]" 1 0 "[]" 1 0 "[key_msg (str ''bad_key'')]"] m
  show ?thesis by simp
qed

end
